theory Spec2Isabelle
  imports Complex_Main
begin

section \<open>Python strings and exceptions\<close>

text \<open>
  A Python string is a \<^typ>\<open>string\<close>. \<open>str.lower()\<close> follows the Unicode case
  mapping (it maps the Kelvin sign U+212A to \<open>k\<close>, for one), which is not modelled
  here: the handlers take it from their environment, as \<open>str_lower\<close> below, and every
  theorem holds whatever function it is. \<open>ascii_lower\<close> is \<open>str.lower()\<close> on the
  strings that consist of ASCII characters; it stands for \<open>str.lower()\<close> in the
  concrete inputs, all of which are ASCII.
\<close>

definition ascii_uppercase :: string where
  "ascii_uppercase = ''ABCDEFGHIJKLMNOPQRSTUVWXYZ''"

definition ascii_lowercase :: string where
  "ascii_lowercase = ''abcdefghijklmnopqrstuvwxyz''"

definition lower_char :: "char \<Rightarrow> char" where
  "lower_char c = (case map_of (zip ascii_uppercase ascii_lowercase) c of None \<Rightarrow> c | Some d \<Rightarrow> d)"

definition ascii_lower :: "string \<Rightarrow> string" where
  "ascii_lower s = map lower_char s"

text \<open>
  The exceptions that leave the handlers of \<open>image_routes.py\<close>. \<open>HTTPException\<close>
  carries the status code and the detail; \<open>RequestValidationError\<close> is what the
  framework answers (422) when a declared \<open>Query(..., ge=1)\<close> bound is violated.
  \<open>ValidationError\<close> and \<open>InvalidRecurrence\<close> are the kinds the specification's
  error taxonomy names; no statement of the source raises them.
\<close>

datatype py_error =
    TypeError
  | AttributeError
  | OverflowError
  | ValueError
  | KeyError string
  | HTTPException nat string
  | RequestValidationError
  | ValidationError
  | InvalidRecurrence

section \<open>The request and the stored order\<close>

text \<open>
  Modelled from the spec: the request model \<open>ImageRequest\<close>
  (\<open>event_relay_api/models/image_request_model.py\<close>) is not among the sources. Its
  fields are the attributes \<open>create_order\<close> reads. The revisit frequency and its unit
  may be absent (\<open>None\<close>), as the specification's data model allows for an order that
  does not repeat.
\<close>

record Recurrence =
  Revisit :: string
  NumberOfRevisits :: int
  RevisitFrequency :: "int option"
  RevisitFrequencyUnits :: "string option"

record ImageRequest =
  Latitude :: real
  Longitude :: real
  Priority :: int
  ImageType :: string
  ImageStartTime :: string
  ImageEndTime :: string
  DeliveryTime :: string
  Recurrence :: Recurrence

text \<open>
  A \<open>timedelta\<close> is its total number of microseconds (the normalised triple of days,
  seconds and microseconds determines it and is determined by it). The type \<open>'dt\<close>
  stands for \<open>datetime\<close>.
\<close>

type_synonym timedelta = int

text \<open>
  Modelled from the spec: the mapping class \<open>ImageOrder\<close>
  (\<open>app_config/database/mapping.py\<close>) is not among the sources.
  \<open>ImageOrder_args\<close> holds the nine keyword arguments of the constructor call
  \<open>ImageOrder(...)\<close>; a stored order has, besides these nine columns, the generated
  \<open>id\<close> (written \<open>id'\<close>) and the attribute \<open>order_type\<close>, both of which
  \<open>create_order\<close> reads after the commit and neither of which it sets.
\<close>

record 'dt ImageOrder_args =
  latitude :: real
  longitude :: real
  priority :: int
  image_type :: string
  start_time :: 'dt
  end_time :: 'dt
  delivery_deadline :: 'dt
  number_of_visits :: int
  revisit_frequency :: "timedelta option"

record 'dt ImageOrder = "'dt ImageOrder_args" +
  id' :: int
  order_type :: string

section \<open>The collaborators: library calls, the session and the publisher\<close>

text \<open>
  The library calls of \<open>create_order\<close>: \<open>fromisoformat\<close> is
  \<open>datetime.fromisoformat\<close>, \<open>None\<close> where it raises \<open>ValueError\<close>, and \<open>str_lower\<close>
  is \<open>str.lower()\<close>.
\<close>

record 'dt env =
  fromisoformat :: "string \<Rightarrow> 'dt option"
  str_lower :: "string \<Rightarrow> string"

text \<open>
  The outside world of the handlers: the table of image orders in row order, the
  sequence the next id is drawn from, and the effects performed so far, oldest first.
\<close>

datatype effect =
    Commit int
  | Publish string int

record 'dt world =
  image_order_table :: "'dt ImageOrder list"
  image_order_id_seq :: int
  effects :: "effect list"

text \<open>
  \<open>timedelta(**{frequency_unit: frequency_amount})\<close>. A keyword that \<open>timedelta\<close>
  does not have is a \<open>TypeError\<close>, so is the amount \<open>None\<close>; a duration of more than
  999999999 days in either direction is an \<open>OverflowError\<close>.
\<close>

definition timedelta_keywords :: "(string \<times> int) list" where
  "timedelta_keywords =
    [(''days'', 86400000000), (''seconds'', 1000000), (''microseconds'', 1),
     (''milliseconds'', 1000), (''minutes'', 60000000), (''hours'', 3600000000),
     (''weeks'', 604800000000)]"

definition timedelta :: "string \<Rightarrow> int option \<Rightarrow> py_error + timedelta" where
  "timedelta keyword amount =
    (case map_of timedelta_keywords keyword of
       None \<Rightarrow> Inl TypeError
     | Some unit_us \<Rightarrow>
        (case amount of
           None \<Rightarrow> Inl TypeError
         | Some n \<Rightarrow>
            (let us = n * unit_us; days = us div 86400000000
             in if - 999999999 \<le> days \<and> days \<le> 999999999 then Inr us else Inl OverflowError)))"

text \<open>
  \<open>session.add(image_order); session.commit()\<close>: the row gets the next id.

  Modelled from the spec: the attribute \<open>order_type\<close> of the mapping class
  \<open>ImageOrder\<close>, which is not among the sources. The specification names the topic
  of a new order \<open>order.<image_type>.created\<close> and speaks of the order/image type of
  a request as of one thing, so the \<open>order_type\<close> of a stored image order is its
  image type.
\<close>

definition add_commit ::
  "'dt ImageOrder_args \<Rightarrow> 'dt world \<Rightarrow> 'dt ImageOrder \<times> 'dt world" where
  "add_commit args w =
    (let image_order =
       \<lparr>latitude = latitude args, longitude = longitude args, priority = priority args,
        image_type = image_type args, start_time = start_time args, end_time = end_time args,
        delivery_deadline = delivery_deadline args, number_of_visits = number_of_visits args,
        revisit_frequency = revisit_frequency args,
        id' = image_order_id_seq w, order_type = image_type args\<rparr>
     in (image_order,
         w\<lparr>image_order_table := image_order_table w @ [image_order],
           image_order_id_seq := image_order_id_seq w + 1,
           effects := effects w @ [Commit (id' image_order)]\<rparr>))"

text \<open>\<open>TopicPublisher(rabbit(), topic).publish_message(body)\<close>.\<close>

definition publish_message :: "string \<Rightarrow> int \<Rightarrow> 'dt world \<Rightarrow> 'dt world" where
  "publish_message topic body w = w\<lparr>effects := effects w @ [Publish topic body]\<rparr>"

text \<open>
  A \<open>Query\<close> is a value: \<open>limit\<close> and \<open>offset\<close> return a new query and leave the
  one they are called on as it was; \<open>all\<close> runs the query it is called on. Without
  \<open>ORDER BY\<close> the rows come in table order.
\<close>

record 'r Query =
  selected :: "'r list"
  limit_clause :: "int option"
  offset_clause :: "int option"

definition session_query :: "'r list \<Rightarrow> 'r Query" where
  "session_query table = \<lparr>selected = table, limit_clause = None, offset_clause = None\<rparr>"

definition limit :: "int \<Rightarrow> 'r Query \<Rightarrow> 'r Query" where
  "limit n q = q\<lparr>limit_clause := Some n\<rparr>"

definition offset :: "int \<Rightarrow> 'r Query \<Rightarrow> 'r Query" where
  "offset n q = q\<lparr>offset_clause := Some n\<rparr>"

definition filter_by :: "('r \<Rightarrow> bool) \<Rightarrow> 'r Query \<Rightarrow> 'r Query" where
  "filter_by p q = q\<lparr>selected := filter p (selected q)\<rparr>"

definition all_rows :: "'r Query \<Rightarrow> 'r list" where
  "all_rows q =
    (let skipped = (case offset_clause q of None \<Rightarrow> selected q | Some k \<Rightarrow> drop (nat k) (selected q))
     in case limit_clause q of None \<Rightarrow> skipped | Some n \<Rightarrow> take (nat n) skipped)"

definition first :: "'r Query \<Rightarrow> 'r option" where
  "first q = (case all_rows (limit 1 q) of [] \<Rightarrow> None | r # _ \<Rightarrow> Some r)"

section \<open>The handlers of \<open>image_routes.py\<close>\<close>

text \<open>
  \<open>get_all_image_orders\<close> (lines 22 to 28). The query built on line 27 is not bound to
  anything; line 28 runs \<open>query\<close>.
\<close>

definition get_all_image_orders ::
  "'dt world \<Rightarrow> int \<Rightarrow> int \<Rightarrow> bool \<Rightarrow> py_error + 'dt ImageOrder list" where
  "get_all_image_orders w page per_page all =
    (if page < 1 \<or> per_page < 1 then Inl RequestValidationError
     else
       (let query = session_query (image_order_table w);
            discarded = (if \<not> all then Some (offset ((page - 1) * per_page) (limit per_page query))
                         else None)
        in Inr (all_rows query)))"

text \<open>\<open>get_image_order\<close> (lines 30 to 36). The detail is not an f-string.\<close>

definition get_image_order :: "'dt world \<Rightarrow> int \<Rightarrow> py_error + 'dt ImageOrder" where
  "get_image_order w i =
    (case first (filter_by (\<lambda>r. id' r = i) (session_query (image_order_table w))) of
       None \<Rightarrow> Inl (HTTPException 404 ''Image order with id={id} does not exist.'')
     | Some image_order \<Rightarrow> Inr image_order)"

text \<open>
  \<open>parse_image_type\<close> (lines 80 to 86): a missing key is a \<open>KeyError\<close>. The first
  argument is \<open>str.lower()\<close>.
\<close>

definition type_mappings :: "(string \<times> string) list" where
  "type_mappings = [(''low'', ''low''), (''medium'', ''medium''), (''high'', ''spotlight'')]"

definition parse_image_type :: "(string \<Rightarrow> string) \<Rightarrow> string \<Rightarrow> py_error + string" where
  "parse_image_type lower request_image_type =
    (case map_of type_mappings (lower request_image_type) of
       None \<Rightarrow> Inl (KeyError (lower request_image_type))
     | Some t \<Rightarrow> Inr t)"

text \<open>
  \<open>create_order\<close> (lines 52 to 78). Every exception is raised before
  \<open>session.add\<close>, so the world it leaves is the one it found. The arguments of
  \<open>ImageOrder(...)\<close> are evaluated in the order they are written. A local variable
  that has the name of a column is primed.
\<close>

definition create_order ::
  "'dt env \<Rightarrow> 'dt world \<Rightarrow> ImageRequest \<Rightarrow> (py_error + int) \<times> 'dt world" where
  "create_order env w image_request =
    (let number_of_visits' = NumberOfRevisits (Recurrence image_request) + 1 in
     case (if str_lower env (Revisit (Recurrence image_request)) = ''true'' then
             (let frequency_amount = RevisitFrequency (Recurrence image_request) in
              case RevisitFrequencyUnits (Recurrence image_request) of
                None \<Rightarrow> Inl AttributeError
              | Some units \<Rightarrow>
                 (let frequency_unit = str_lower env units in
                  case timedelta frequency_unit frequency_amount of
                    Inl e \<Rightarrow> Inl e
                  | Inr d \<Rightarrow> Inr (Some d)))
           else Inr None) of
       Inl e \<Rightarrow> (Inl e, w)
     | Inr revisit_frequency' \<Rightarrow>
        (case parse_image_type (str_lower env) (ImageType image_request) of
           Inl e \<Rightarrow> (Inl e, w)
         | Inr image_type' \<Rightarrow>
            (case fromisoformat env (ImageStartTime image_request) of
               None \<Rightarrow> (Inl ValueError, w)
             | Some start_time' \<Rightarrow>
                (case fromisoformat env (ImageEndTime image_request) of
                   None \<Rightarrow> (Inl ValueError, w)
                 | Some end_time' \<Rightarrow>
                    (case fromisoformat env (DeliveryTime image_request) of
                       None \<Rightarrow> (Inl ValueError, w)
                     | Some delivery_deadline' \<Rightarrow>
                        (let (image_order, w1) =
                               add_commit
                                 \<lparr>latitude = Latitude image_request,
                                  longitude = Longitude image_request,
                                  priority = Priority image_request,
                                  image_type = image_type',
                                  start_time = start_time',
                                  end_time = end_time',
                                  delivery_deadline = delivery_deadline',
                                  number_of_visits = number_of_visits',
                                  revisit_frequency = revisit_frequency'\<rparr> w;
                             w2 = publish_message
                                    (''order.'' @ order_type image_order @ ''.created'')
                                    (id' image_order) w1
                         in (Inr (id' image_order), w2)))))))"

section \<open>The report of \<open>scheduler_report.py\<close>\<close>

text \<open>
  Modelled from the spec: the mapping classes of \<open>app_config/database/mapping.py\<close>
  are not among the sources. Each table is the list of its rows, and a row has the
  columns the report reads, named \<open>Class_column\<close>. A status, a type and a name are
  strings; a status message may be \<open>NULL\<close>. Of a \<open>SystemOrder\<close> only the id is kept:
  the report counts them.
\<close>

record ScheduleRequest =
  ScheduleRequest_id :: int
  ScheduleRequest_order_type :: string
  ScheduleRequest_status :: string
  ScheduleRequest_status_message :: "string option"

record Satellite =
  Satellite_id :: int
  Satellite_name :: string

record TransmittedEvent =
  TransmittedEvent_id :: int
  TransmittedEvent_asset_id :: int
  TransmittedEvent_event_type :: string

record GroundStation =
  GroundStation_id :: int
  GroundStation_name :: string

record ContactEvent =
  ContactEvent_id :: int
  ContactEvent_groundstation_id :: int
  ContactEvent_total_transmission_time :: int

text \<open>
  SQL fixes no order for the groups of a \<open>GROUP BY\<close> without \<open>ORDER BY\<close>: the
  database decides it. A \<open>group_order\<close> holds that decision for each of the four
  grouping queries of the report, as a relation \<open>precedes\<close> on the keys; the groups of
  a query come in the order in which \<open>arrange precedes\<close> puts their keys. Whatever the
  relation is, \<open>arrange precedes\<close> keeps every key once, and every order of the keys is
  the one that some relation gives (\<open>arrange_any_order\<close> below).
\<close>

record group_order =
  status_before :: "string \<Rightarrow> string \<Rightarrow> bool"
  reason_before :: "string \<times> string option \<Rightarrow> string \<times> string option \<Rightarrow> bool"
  order_type_before :: "string \<Rightarrow> string \<Rightarrow> bool"
  event_type_before :: "string \<Rightarrow> string \<Rightarrow> bool"

record Database =
  group_order :: group_order
  SystemOrder_table :: "int list"
  ScheduleRequest_table :: "ScheduleRequest list"
  Satellite_table :: "Satellite list"
  TransmittedEvent_table :: "TransmittedEvent list"
  GroundStation_table :: "GroundStation list"
  ContactEvent_table :: "ContactEvent list"

fun insert_group :: "('k \<Rightarrow> 'k \<Rightarrow> bool) \<Rightarrow> 'k \<Rightarrow> 'k list \<Rightarrow> 'k list" where
  "insert_group precedes k [] = [k]"
| "insert_group precedes k (x # xs) =
     (if precedes k x then k # x # xs else x # insert_group precedes k xs)"

definition arrange :: "('k \<Rightarrow> 'k \<Rightarrow> bool) \<Rightarrow> 'k list \<Rightarrow> 'k list" where
  "arrange precedes ks = foldr (insert_group precedes) ks []"

text \<open>
  \<open>session.query(key, func.count(id)).group_by(key).all()\<close>: one row for each value
  of the key, with the number of rows that have it (the id is the primary key, so
  no row is left out of the count), in the order the database decides.
\<close>

definition group_by_count ::
  "('k \<Rightarrow> 'k \<Rightarrow> bool) \<Rightarrow> ('r \<Rightarrow> 'k) \<Rightarrow> 'r list \<Rightarrow> ('k \<times> nat) list" where
  "group_by_count precedes key rows =
    map (\<lambda>k. (k, length (filter (\<lambda>r. key r = k) rows)))
      (arrange precedes (remdups (map key rows)))"

text \<open>
  What the report prints, one value for each call of \<open>print\<close>, holding the values
  the f-string interpolates:
  \<^item> \<open>Text s\<close>: the literal \<open>s\<close>;
  \<^item> \<open>TotalOrderCount n\<close>: \<open>f"Total order count: {n}"\<close>;
  \<^item> \<open>TotalRequestCount n\<close>: \<open>f"Total request count: {n}"\<close>;
  \<^item> \<open>StatusCount indent status n\<close>:
    \<open>f"{indent}{status.capitalize()} requests: {n}"\<close>;
  \<^item> \<open>ReasonCount indent n reason\<close>: \<open>f"{indent}  {n}: {reason or "Unspecified"}"\<close>;
  \<^item> \<open>TypeRequestCount type n\<close>: \<open>f"Total {type.capitalize()} request count: {n}"\<close>;
  \<^item> \<open>SatelliteEvents name n\<close>: \<open>f"{name}: {n} events scheduled"\<close>;
  \<^item> \<open>EventTypeCount type n\<close>: \<open>f"   {type} events: {n}"\<close>;
  \<^item> \<open>ScheduledContacts name n\<close>: \<open>f"{name}: {n} scheduled contacts"\<close>.
\<close>

datatype report_line =
    Text string
  | TotalOrderCount nat
  | TotalRequestCount nat
  | StatusCount string string nat
  | ReasonCount string nat "string option"
  | TypeRequestCount string nat
  | SatelliteEvents string nat
  | EventTypeCount string nat
  | ScheduledContacts string nat

definition newline :: char where
  "newline = CHR 0x0A"

text \<open>
  \<open>print_request_breakdown\<close> (lines 53 to 70). The second query groups the requests
  of one status by status and status message. The first argument is the group order
  of the session the function opens.
\<close>

definition print_request_breakdown ::
  "group_order \<Rightarrow> ScheduleRequest list \<Rightarrow> string \<Rightarrow> report_line list" where
  "print_request_breakdown groups requests_subquery indent =
    (let request_count_by_status =
           group_by_count (status_before groups) ScheduleRequest_status requests_subquery
     in concat (map (\<lambda>(request_status, n).
          StatusCount indent request_status n #
          (let breakdown_by_reason =
                 map (\<lambda>((s, reason), m). (reason, m))
                   (group_by_count (reason_before groups)
                      (\<lambda>r. (ScheduleRequest_status r, ScheduleRequest_status_message r))
                      (filter (\<lambda>r. ScheduleRequest_status r = request_status) requests_subquery))
           in if length breakdown_by_reason > 1
              then map (\<lambda>(reason, m). ReasonCount indent m reason) breakdown_by_reason
              else []))
        request_count_by_status))"

text \<open>\<open>create_report\<close> (lines 6 to 50); the argument \<open>path\<close> is not used.\<close>

definition create_report :: "Database \<Rightarrow> report_line list" where
  "create_report db =
    (let total_order_count = length (SystemOrder_table db);
         total_request_count = length (ScheduleRequest_table db);
         request_count_by_type =
           group_by_count (order_type_before (group_order db)) ScheduleRequest_order_type
             (ScheduleRequest_table db)
     in [Text ''===========Overall stats==========='',
         TotalOrderCount total_order_count,
         TotalRequestCount total_request_count]
        @ print_request_breakdown (group_order db) (ScheduleRequest_table db) ''   ''
        @ [Text ([newline, newline] @ ''======Breakdown by order type======'')]
        @ concat (map (\<lambda>(type, n).
            TypeRequestCount type n #
            print_request_breakdown (group_order db)
              (filter (\<lambda>r. ScheduleRequest_order_type r = type) (ScheduleRequest_table db))
              ''   '')
           request_count_by_type)
        @ [Text ([newline, newline] @ ''==========Scheduled Events========='' @ [newline]),
           Text ''------------Per satellite-----------'']
        @ concat (map (\<lambda>satellite.
            (let events = filter (\<lambda>e. TransmittedEvent_asset_id e = Satellite_id satellite)
                            (TransmittedEvent_table db)
             in SatelliteEvents (Satellite_name satellite) (length events) #
                map (\<lambda>(event_type, n). EventTypeCount event_type n)
                  (group_by_count (event_type_before (group_order db))
                     TransmittedEvent_event_type events)))
           (Satellite_table db))
        @ [Text ([newline, newline] @ ''----------Per groundstation---------'')]
        @ map (\<lambda>gs.
            (let total_contacts =
                   length (filter (\<lambda>c. ContactEvent_groundstation_id c = GroundStation_id gs
                                        \<and> ContactEvent_total_transmission_time c > 0)
                             (ContactEvent_table db))
             in ScheduledContacts (GroundStation_name gs) total_contacts))
           (GroundStation_table db))"

section \<open>Concrete inputs\<close>

text \<open>
  The inputs at which the theorems below are evaluated. A \<open>datetime\<close> is here the
  number of seconds after 2025-01-01T00:00:00, and \<open>example_fromisoformat\<close> reads
  three timestamps and raises on every other string. \<open>example_request\<close> is the order
  of the specification's example: type high, a window of one hour, two revisits, one
  day apart.
\<close>

definition example_fromisoformat :: "string \<Rightarrow> int option" where
  "example_fromisoformat s =
    map_of [(''2025-01-01T00:00:00'', 0), (''2025-01-01T01:00:00'', 3600),
            (''2025-01-01T02:00:00'', 7200)] s"

definition example_env :: "int env" where
  "example_env = \<lparr>fromisoformat = example_fromisoformat, str_lower = ascii_lower\<rparr>"

definition example_world :: "int world" where
  "example_world = \<lparr>image_order_table = [], image_order_id_seq = 1, effects = []\<rparr>"

definition example_request :: ImageRequest where
  "example_request =
    \<lparr>Latitude = 10, Longitude = 20, Priority = 1, ImageType = ''high'',
     ImageStartTime = ''2025-01-01T00:00:00'', ImageEndTime = ''2025-01-01T01:00:00'',
     DeliveryTime = ''2025-01-01T02:00:00'',
     Recurrence = \<lparr>Revisit = ''true'', NumberOfRevisits = 2, RevisitFrequency = Some 1,
                    RevisitFrequencyUnits = Some ''days''\<rparr>\<rparr>"

definition example_order :: "int \<Rightarrow> int ImageOrder" where
  "example_order i =
    \<lparr>latitude = 10, longitude = 20, priority = 1, image_type = ''low'', start_time = 0,
     end_time = 3600, delivery_deadline = 7200, number_of_visits = 1,
     revisit_frequency = None, id' = i, order_type = ''low''\<rparr>"

definition example_store :: "int world" where
  "example_store =
    \<lparr>image_order_table = [example_order 1, example_order 2, example_order 3],
     image_order_id_seq = 4, effects = []\<rparr>"

definition example_schedule_request :: "int \<Rightarrow> string \<Rightarrow> string option \<Rightarrow> ScheduleRequest" where
  "example_schedule_request i s m =
    \<lparr>ScheduleRequest_id = i, ScheduleRequest_order_type = ''spotlight'',
     ScheduleRequest_status = s, ScheduleRequest_status_message = m\<rparr>"

definition example_requests :: "ScheduleRequest list" where
  "example_requests =
    [example_schedule_request 1 ''pending'' None,
     example_schedule_request 2 ''scheduled'' None,
     example_schedule_request 3 ''rejected'' (Some ''no opportunity''),
     example_schedule_request 4 ''scheduled'' (Some ''GS-3''),
     example_schedule_request 5 ''pending'' None,
     example_schedule_request 6 ''scheduled'' (Some ''GS-3'')]"

definition example_group_order :: group_order where
  "example_group_order =
    \<lparr>status_before = (\<lambda>a b. False), reason_before = (\<lambda>a b. True),
     order_type_before = (\<lambda>a b. True), event_type_before = (\<lambda>a b. True)\<rparr>"

definition example_database :: Database where
  "example_database =
    \<lparr>group_order = example_group_order,
     SystemOrder_table = [1, 2], ScheduleRequest_table = example_requests,
     Satellite_table = [], TransmittedEvent_table = [],
     GroundStation_table =
       [\<lparr>GroundStation_id = 1, GroundStation_name = ''Inuvik''\<rparr>,
        \<lparr>GroundStation_id = 2, GroundStation_name = ''Prince Albert''\<rparr>],
     ContactEvent_table =
       [\<lparr>ContactEvent_id = 1, ContactEvent_groundstation_id = 1,
         ContactEvent_total_transmission_time = 120\<rparr>,
        \<lparr>ContactEvent_id = 2, ContactEvent_groundstation_id = 1,
         ContactEvent_total_transmission_time = 0\<rparr>,
        \<lparr>ContactEvent_id = 3, ContactEvent_groundstation_id = 2,
         ContactEvent_total_transmission_time = 0\<rparr>,
        \<lparr>ContactEvent_id = 4, ContactEvent_groundstation_id = 1,
         ContactEvent_total_transmission_time = 45\<rparr>]\<rparr>"

section \<open>Evaluation and helper lemmas\<close>

lemmas ascii_lower_defs = ascii_lower_def lower_char_def ascii_uppercase_def ascii_lowercase_def

lemma all_rows_session_query: "all_rows (session_query t) = t"
  by (simp add: all_rows_def session_query_def)

lemma first_filter_by: "first (filter_by p (session_query t)) = List.find p t"
  by (induction t) (simp_all add: first_def filter_by_def session_query_def limit_def all_rows_def)

lemmas create_order_defs =
  create_order_def add_commit_def publish_message_def parse_image_type_def type_mappings_def
  timedelta_def timedelta_keywords_def Let_def

lemmas example_defs =
  example_env_def example_world_def example_request_def example_fromisoformat_def

lemma create_order_Inr:
  assumes "create_order env w req = (Inr oid, w')"
  shows "\<exists>row. row = last (image_order_table w') \<and>
      w' = w\<lparr>image_order_table := image_order_table w @ [row],
             image_order_id_seq := image_order_id_seq w + 1,
             effects := effects w @
               [Commit oid, Publish (''order.'' @ order_type row @ ''.created'') oid]\<rparr>
    \<and> id' row = oid \<and> oid = image_order_id_seq w
    \<and> order_type row = image_type row
    \<and> number_of_visits row = NumberOfRevisits (Recurrence req) + 1
    \<and> parse_image_type (str_lower env) (ImageType req) = Inr (image_type row)
    \<and> fromisoformat env (ImageStartTime req) = Some (start_time row)
    \<and> fromisoformat env (ImageEndTime req) = Some (end_time row)
    \<and> fromisoformat env (DeliveryTime req) = Some (delivery_deadline row)
    \<and> latitude row = Latitude req \<and> longitude row = Longitude req
    \<and> priority row = Priority req
    \<and> (if str_lower env (Revisit (Recurrence req)) = ''true''
        then \<exists>u d. RevisitFrequencyUnits (Recurrence req) = Some u
               \<and> timedelta (str_lower env u) (RevisitFrequency (Recurrence req)) = Inr d
               \<and> revisit_frequency row = Some d
        else revisit_frequency row = None)"
  using assms
  unfolding create_order_def add_commit_def publish_message_def Let_def
  by (auto split: if_splits sum.splits option.splits)

lemma create_order_Inl:
  "create_order env w req = (Inl e, w') \<Longrightarrow> w' = w"
  unfolding create_order_def add_commit_def publish_message_def Let_def
  by (auto split: if_splits sum.splits option.splits)

lemma create_order_example:
  "create_order example_env example_world example_request =
    (Inr 1,
     \<lparr>image_order_table =
        [\<lparr>latitude = 10, longitude = 20, priority = 1, image_type = ''spotlight'',
          start_time = 0, end_time = 3600, delivery_deadline = 7200, number_of_visits = 3,
          revisit_frequency = Some 86400000000, id' = 1, order_type = ''spotlight''\<rparr>],
      image_order_id_seq = 2,
      effects = [Commit 1, Publish ''order.spotlight.created'' 1]\<rparr>)"
  by (simp add: create_order_defs example_defs ascii_lower_defs)

lemma create_order_single_example:
  "create_order example_env example_world
     (example_request\<lparr>Recurrence :=
        \<lparr>Revisit = ''false'', NumberOfRevisits = 2, RevisitFrequency = None,
         RevisitFrequencyUnits = None\<rparr>\<rparr>) =
    (Inr 1,
     \<lparr>image_order_table =
        [\<lparr>latitude = 10, longitude = 20, priority = 1, image_type = ''spotlight'',
          start_time = 0, end_time = 3600, delivery_deadline = 7200, number_of_visits = 3,
          revisit_frequency = None, id' = 1, order_type = ''spotlight''\<rparr>],
      image_order_id_seq = 2,
      effects = [Commit 1, Publish ''order.spotlight.created'' 1]\<rparr>)"
  by (simp add: create_order_defs example_defs ascii_lower_defs)

lemma create_order_seconds_example:
  "create_order example_env example_world
     (example_request\<lparr>Recurrence :=
        \<lparr>Revisit = ''true'', NumberOfRevisits = 2, RevisitFrequency = Some 30,
         RevisitFrequencyUnits = Some ''seconds''\<rparr>\<rparr>) =
    (Inr 1,
     \<lparr>image_order_table =
        [\<lparr>latitude = 10, longitude = 20, priority = 1, image_type = ''spotlight'',
          start_time = 0, end_time = 3600, delivery_deadline = 7200, number_of_visits = 3,
          revisit_frequency = Some 30000000, id' = 1, order_type = ''spotlight''\<rparr>],
      image_order_id_seq = 2,
      effects = [Commit 1, Publish ''order.spotlight.created'' 1]\<rparr>)"
  by (simp add: create_order_defs example_defs ascii_lower_defs)

lemma create_order_HIGH_example:
  "create_order example_env example_world (example_request\<lparr>ImageType := ''HIGH''\<rparr>) =
    (Inr 1,
     \<lparr>image_order_table =
        [\<lparr>latitude = 10, longitude = 20, priority = 1, image_type = ''spotlight'',
          start_time = 0, end_time = 3600, delivery_deadline = 7200, number_of_visits = 3,
          revisit_frequency = Some 86400000000, id' = 1, order_type = ''spotlight''\<rparr>],
      image_order_id_seq = 2,
      effects = [Commit 1, Publish ''order.spotlight.created'' 1]\<rparr>)"
  by (simp add: create_order_defs example_defs ascii_lower_defs)

lemma timedelta_errors:
  "timedelta keyword amount = Inl e \<Longrightarrow> e = TypeError \<or> e = OverflowError"
  by (auto simp: timedelta_def Let_def split: option.splits if_splits)

lemma parse_image_type_cases:
  "parse_image_type lower t =
     (if lower t = ''low'' then Inr ''low''
      else if lower t = ''medium'' then Inr ''medium''
      else if lower t = ''high'' then Inr ''spotlight''
      else Inl (KeyError (lower t)))"
  by (simp add: parse_image_type_def type_mappings_def)

lemma set_insert_group: "set (insert_group precedes k xs) = insert k (set xs)"
  by (induction xs) auto

lemma length_insert_group: "length (insert_group precedes k xs) = Suc (length xs)"
  by (induction xs) auto

lemma set_arrange: "set (arrange precedes ks) = set ks"
  by (induction ks) (simp_all add: arrange_def set_insert_group)

lemma length_arrange: "length (arrange precedes ks) = length ks"
  by (induction ks) (simp_all add: arrange_def length_insert_group)

lemma insert_group_insort_key:
  "insert_group (\<lambda>a b. f a \<le> f b) k xs = insort_key f k xs"
  by (induction xs) auto

lemma arrange_sort_key: "arrange (\<lambda>a b. f a \<le> f b) ks = sort_key f ks"
  by (induction ks) (simp_all add: arrange_def insert_group_insort_key)

lemma sorted_map_Suc: "sorted (map Suc xs) = sorted xs"
  by (induction xs) auto

lemma position_exists:
  "distinct ps \<Longrightarrow> \<exists>f :: 'a \<Rightarrow> nat. inj_on f (set ps) \<and> sorted (map f ps)"
proof (induction ps)
  case Nil
  then show ?case by simp
next
  case (Cons x ps)
  then obtain f :: "'a \<Rightarrow> nat" where f: "inj_on f (set ps)" "sorted (map f ps)"
    by auto
  let ?g = "\<lambda>a. if a = x then 0 else Suc (f a)"
  from Cons.prems have x: "x \<notin> set ps"
    by simp
  then have "map ?g ps = map (\<lambda>a. Suc (f a)) ps"
    by (intro map_cong) auto
  also have "\<dots> = map Suc (map f ps)"
    by simp
  finally have m: "map ?g ps = map Suc (map f ps)" .
  have "sorted (map Suc (map f ps))"
    using f(2) by (simp only: sorted_map_Suc)
  then have "sorted (map ?g ps)"
    by (simp only: m)
  then have "sorted (map ?g (x # ps))"
    by simp
  moreover have "inj_on ?g (set (x # ps))"
    using f(1) x by (auto simp: inj_on_def)
  ultimately show ?case
    by blast
qed

lemma arrange_any_order:
  assumes "distinct ps" "distinct ks" "set ps = set ks"
  shows "\<exists>precedes. arrange precedes ks = ps"
proof -
  from position_exists [OF assms(1)] obtain f :: "'a \<Rightarrow> nat"
    where f: "inj_on f (set ps)" "sorted (map f ps)"
    by blast
  have inj: "inj_on f (set ks \<union> set ps)"
    using f(1) assms(3) by simp
  have "sorted (map f (sort_key f ks))"
    by simp
  moreover have "distinct (map f (sort_key f ks))"
    using assms(2) inj by (simp add: distinct_map inj_on_Un)
  moreover have "distinct (map f ps)"
    using assms(1) f(1) by (simp add: distinct_map)
  moreover have "set (map f (sort_key f ks)) = set (map f ps)"
    using assms(3) by simp
  ultimately have "map f (sort_key f ks) = map f ps"
    using f(2) by (intro sorted_distinct_set_unique)
  then have "sort_key f ks = ps"
    using inj by (metis assms(3) inj_on_map_eq_map set_sort)
  then show ?thesis
    by (intro exI [of _ "\<lambda>a b. f a \<le> f b"]) (simp add: arrange_sort_key)
qed

lemma set_group_by_count:
  "set (group_by_count precedes key rows) =
     (\<lambda>k. (k, length (filter (\<lambda>r. key r = k) rows))) ` key ` set rows"
  by (simp add: group_by_count_def set_arrange)

lemma length_group_by_count:
  "length (group_by_count precedes key rows) = length (remdups (map key rows))"
  by (simp add: group_by_count_def length_arrange)

lemma length_filter_count_list:
  "length (filter (\<lambda>r. f r = k) rows) = count_list (map f rows) k"
  by (induction rows) auto

lemma more_than_one_group:
  "1 < length (remdups xs) \<longleftrightarrow> (\<exists>a \<in> set xs. \<exists>b \<in> set xs. a \<noteq> b)"
proof -
  have "length (remdups xs) = card (set xs)"
    by (simp add: length_remdups_card_conv)
  moreover have "card (set xs) \<le> Suc 0 \<longleftrightarrow> (\<forall>a \<in> set xs. \<forall>b \<in> set xs. a = b)"
    by (simp add: card_le_Suc0_iff_eq)
  ultimately show ?thesis
    by (metis One_nat_def not_less)
qed

lemma two_reasons:
  "1 < length (map (\<lambda>((s', reason), m). (reason, m))
         (group_by_count precedes
            (\<lambda>r. (ScheduleRequest_status r, ScheduleRequest_status_message r))
            (filter (\<lambda>r. ScheduleRequest_status r = s) rows))) \<longleftrightarrow>
   (\<exists>r1 \<in> set rows. \<exists>r2 \<in> set rows. ScheduleRequest_status r1 = s
      \<and> ScheduleRequest_status r2 = s
      \<and> ScheduleRequest_status_message r1 \<noteq> ScheduleRequest_status_message r2)"
  unfolding length_map length_group_by_count more_than_one_group
  by auto

lemma reason_count:
  "ScheduleRequest_status r = s \<Longrightarrow>
   length (filter (\<lambda>r'. (ScheduleRequest_status r', ScheduleRequest_status_message r') =
                        (ScheduleRequest_status r, ScheduleRequest_status_message r))
             (filter (\<lambda>r. ScheduleRequest_status r = s) rows)) =
   length (filter (\<lambda>r'. ScheduleRequest_status r' = s
                        \<and> ScheduleRequest_status_message r' = ScheduleRequest_status_message r) rows)"
  by (simp add: conj_commute cong: conj_cong)

lemma set_reason_lines:
  "set (map (\<lambda>(reason, m). ReasonCount indent m reason)
         (map (\<lambda>((s', reason), m). (reason, m))
            (group_by_count precedes
               (\<lambda>r. (ScheduleRequest_status r, ScheduleRequest_status_message r))
               (filter (\<lambda>r. ScheduleRequest_status r = s) rows)))) =
   (\<lambda>r. ReasonCount indent
          (length (filter (\<lambda>r'. ScheduleRequest_status r' = s
             \<and> ScheduleRequest_status_message r' = ScheduleRequest_status_message r) rows))
          (ScheduleRequest_status_message r))
     ` {r \<in> set rows. ScheduleRequest_status r = s}"
proof -
  have "set (map (\<lambda>(reason, m). ReasonCount indent m reason)
         (map (\<lambda>((s', reason), m). (reason, m))
            (group_by_count precedes
               (\<lambda>r. (ScheduleRequest_status r, ScheduleRequest_status_message r))
               (filter (\<lambda>r. ScheduleRequest_status r = s) rows)))) =
     (\<lambda>r. ReasonCount indent
        (length (filter (\<lambda>r'. (ScheduleRequest_status r', ScheduleRequest_status_message r') =
                        (ScheduleRequest_status r, ScheduleRequest_status_message r))
             (filter (\<lambda>r. ScheduleRequest_status r = s) rows)))
        (ScheduleRequest_status_message r))
     ` {r \<in> set rows. ScheduleRequest_status r = s}"
    by (simp add: set_group_by_count image_image)
  also have "\<dots> = (\<lambda>r. ReasonCount indent
          (length (filter (\<lambda>r'. ScheduleRequest_status r' = s
             \<and> ScheduleRequest_status_message r' = ScheduleRequest_status_message r) rows))
          (ScheduleRequest_status_message r))
     ` {r \<in> set rows. ScheduleRequest_status r = s}"
    by (intro image_cong refl) (simp add: reason_count)
  finally show ?thesis .
qed

lemma set_status_block:
  "set (x # (if c then xs else [])) = insert x (if c then set xs else {})"
  by simp

lemma set_print_request_breakdown:
  "set (print_request_breakdown groups rows indent) =
    (\<Union>s \<in> ScheduleRequest_status ` set rows.
       insert (StatusCount indent s (length (filter (\<lambda>r. ScheduleRequest_status r = s) rows)))
         (if \<exists>r1 \<in> set rows. \<exists>r2 \<in> set rows. ScheduleRequest_status r1 = s
               \<and> ScheduleRequest_status r2 = s
               \<and> ScheduleRequest_status_message r1 \<noteq> ScheduleRequest_status_message r2
          then (\<lambda>r. ReasonCount indent
                  (length (filter (\<lambda>r'. ScheduleRequest_status r' = s
                     \<and> ScheduleRequest_status_message r' = ScheduleRequest_status_message r)
                     rows))
                  (ScheduleRequest_status_message r))
             ` {r \<in> set rows. ScheduleRequest_status r = s}
          else {}))"
  unfolding print_request_breakdown_def Let_def two_reasons
  unfolding set_concat set_map set_group_by_count image_image case_prod_conv
  unfolding set_status_block set_reason_lines
  by (rule refl)

lemma StatusCount_in_print_request_breakdown:
  "StatusCount i s n \<in> set (print_request_breakdown groups rows indent) \<longleftrightarrow>
     i = indent \<and> s \<in> ScheduleRequest_status ` set rows
     \<and> n = length (filter (\<lambda>r. ScheduleRequest_status r = s) rows)"
  unfolding set_print_request_breakdown
  by (auto split: if_splits)

lemma ReasonCount_in_print_request_breakdown:
  "ReasonCount i n m \<in> set (print_request_breakdown groups rows indent) \<longleftrightarrow>
     i = indent \<and>
     (\<exists>r1 \<in> set rows. \<exists>r2 \<in> set rows.
        ScheduleRequest_status r1 = ScheduleRequest_status r2
        \<and> ScheduleRequest_status_message r1 \<noteq> ScheduleRequest_status_message r2
        \<and> ScheduleRequest_status_message r1 = m
        \<and> n = length (filter (\<lambda>r. ScheduleRequest_status r = ScheduleRequest_status r1
                                  \<and> ScheduleRequest_status_message r = m) rows))"
  (is "?L \<longleftrightarrow> ?R")
proof
  assume ?L
  then obtain s where two: "\<exists>r1 \<in> set rows. \<exists>r2 \<in> set rows. ScheduleRequest_status r1 = s
               \<and> ScheduleRequest_status r2 = s
               \<and> ScheduleRequest_status_message r1 \<noteq> ScheduleRequest_status_message r2"
    and line: "ReasonCount i n m \<in> (\<lambda>r. ReasonCount indent
                  (length (filter (\<lambda>r'. ScheduleRequest_status r' = s
                     \<and> ScheduleRequest_status_message r' = ScheduleRequest_status_message r)
                     rows))
                  (ScheduleRequest_status_message r))
             ` {r \<in> set rows. ScheduleRequest_status r = s}"
    unfolding set_print_request_breakdown
    by (auto split: if_splits)
  from line obtain r where r: "r \<in> set rows" "ScheduleRequest_status r = s"
      "ScheduleRequest_status_message r = m" and i: "i = indent"
      and n: "n = length (filter (\<lambda>r'. ScheduleRequest_status r' = s
                                       \<and> ScheduleRequest_status_message r' = m) rows)"
    by auto
  from two obtain r' where r': "r' \<in> set rows" "ScheduleRequest_status r' = s"
      "ScheduleRequest_status_message r' \<noteq> m"
    by metis
  have "ScheduleRequest_status r = ScheduleRequest_status r'
        \<and> ScheduleRequest_status_message r \<noteq> ScheduleRequest_status_message r'
        \<and> ScheduleRequest_status_message r = m
        \<and> n = length (filter (\<lambda>x. ScheduleRequest_status x = ScheduleRequest_status r
                                  \<and> ScheduleRequest_status_message x = m) rows)"
    using r r' n by simp
  then have "\<exists>r2 \<in> set rows. ScheduleRequest_status r = ScheduleRequest_status r2
        \<and> ScheduleRequest_status_message r \<noteq> ScheduleRequest_status_message r2
        \<and> ScheduleRequest_status_message r = m
        \<and> n = length (filter (\<lambda>x. ScheduleRequest_status x = ScheduleRequest_status r
                                  \<and> ScheduleRequest_status_message x = m) rows)"
    using r'(1) by (rule bexI)
  then have "\<exists>r1 \<in> set rows. \<exists>r2 \<in> set rows.
        ScheduleRequest_status r1 = ScheduleRequest_status r2
        \<and> ScheduleRequest_status_message r1 \<noteq> ScheduleRequest_status_message r2
        \<and> ScheduleRequest_status_message r1 = m
        \<and> n = length (filter (\<lambda>x. ScheduleRequest_status x = ScheduleRequest_status r1
                                  \<and> ScheduleRequest_status_message x = m) rows)"
    using r(1) by (rule bexI)
  with i show ?R
    by (rule conjI)
next
  assume ?R
  then obtain r1 r2 where r: "r1 \<in> set rows" "r2 \<in> set rows"
      "ScheduleRequest_status r1 = ScheduleRequest_status r2"
      "ScheduleRequest_status_message r1 \<noteq> ScheduleRequest_status_message r2"
      "ScheduleRequest_status_message r1 = m" and i: "i = indent"
      and n: "n = length (filter (\<lambda>r. ScheduleRequest_status r = ScheduleRequest_status r1
                                  \<and> ScheduleRequest_status_message r = m) rows)"
    by blast
  let ?s = "ScheduleRequest_status r1"
  have cond: "\<exists>r1 \<in> set rows. \<exists>r2 \<in> set rows. ScheduleRequest_status r1 = ?s
             \<and> ScheduleRequest_status r2 = ?s
             \<and> ScheduleRequest_status_message r1 \<noteq> ScheduleRequest_status_message r2"
    using r by metis
  have "ReasonCount i n m \<in> (\<lambda>r. ReasonCount indent
                  (length (filter (\<lambda>r'. ScheduleRequest_status r' = ?s
                     \<and> ScheduleRequest_status_message r' = ScheduleRequest_status_message r)
                     rows))
                  (ScheduleRequest_status_message r))
             ` {r \<in> set rows. ScheduleRequest_status r = ?s}"
    using r i n by (intro image_eqI [of _ _ r1]) simp_all
  moreover have "?s \<in> ScheduleRequest_status ` set rows"
    using r(1) by simp
  ultimately show ?L
    unfolding set_print_request_breakdown
    by (intro UN_I [of ?s]) (simp_all only: cond if_True insert_iff simp_thms)
qed

lemma ScheduledContacts_notin_print_request_breakdown:
  "ScheduledContacts name n \<notin> set (print_request_breakdown groups rows indent)"
  unfolding set_print_request_breakdown
  by (auto split: if_splits)

lemma ScheduledContacts_in_create_report:
  "ScheduledContacts name n \<in> set (create_report db) \<longleftrightarrow>
     (\<exists>gs \<in> set (GroundStation_table db). name = GroundStation_name gs
        \<and> n = length (filter (\<lambda>c. ContactEvent_groundstation_id c = GroundStation_id gs
                                  \<and> ContactEvent_total_transmission_time c > 0)
                       (ContactEvent_table db)))"
  unfolding create_report_def Let_def
  by (auto simp: ScheduledContacts_notin_print_request_breakdown)

lemma print_request_breakdown_in_create_report:
  "set (print_request_breakdown (group_order db) (ScheduleRequest_table db) ''   '')
     \<subseteq> set (create_report db)"
  unfolding create_report_def Let_def
  by auto

section \<open>Listing and fetching orders\<close>

text \<open>
  C3. \<open>get_all_image_orders\<close> answers every valid call, whatever \<open>page\<close>, \<open>per_page\<close>
  and \<open>all\<close> are, with every stored order: the limited query of line 27 is dropped,
  so no page is cut out. (\<open>get_image_order_requests\<close>, lines 48 to 50 of the same
  file, binds the limited query before it runs it.)
\<close>

theorem get_all_image_orders_returns_every_order:
  "1 \<le> page \<Longrightarrow> 1 \<le> per_page \<Longrightarrow>
     get_all_image_orders w page per_page all = Inr (image_order_table w)"
  by (simp add: get_all_image_orders_def all_rows_session_query Let_def)

theorem get_all_image_orders_page_of_two_has_three:
  "(1::int) \<le> 1 \<and> (1::int) \<le> 2 \<and>
   get_all_image_orders example_store 1 2 False =
     Inr [example_order 1, example_order 2, example_order 3]"
  using get_all_image_orders_returns_every_order [of 1 2 example_store False]
  by (simp add: example_store_def)

text \<open>
  C5. \<open>get_image_order\<close> raises \<open>HTTPException(404)\<close> for an id that no stored order
  has, and returns a stored order of that id otherwise: the order of that id, ids
  being unique.
\<close>

theorem get_image_order_found_or_404:
  "(i \<notin> id' ` set (image_order_table w) \<longrightarrow>
      get_image_order w i = Inl (HTTPException 404 ''Image order with id={id} does not exist.''))
   \<and> (i \<in> id' ` set (image_order_table w) \<longrightarrow>
      (\<exists>r \<in> set (image_order_table w). id' r = i \<and> get_image_order w i = Inr r))
   \<and> (\<forall>r \<in> set (image_order_table w).
        distinct (map id' (image_order_table w)) \<and> id' r = i \<longrightarrow> get_image_order w i = Inr r)"
proof (intro conjI impI ballI)
  assume "i \<notin> id' ` set (image_order_table w)"
  then have "List.find (\<lambda>r. id' r = i) (image_order_table w) = None"
    by (auto simp: find_None_iff)
  then show "get_image_order w i = Inl (HTTPException 404 ''Image order with id={id} does not exist.'')"
    by (simp add: get_image_order_def first_filter_by)
next
  assume "i \<in> id' ` set (image_order_table w)"
  then obtain r where r: "List.find (\<lambda>r. id' r = i) (image_order_table w) = Some r"
    by (cases "List.find (\<lambda>r. id' r = i) (image_order_table w)") (auto simp: find_None_iff)
  then have "r \<in> set (image_order_table w)" "id' r = i"
    by (auto simp: find_Some_iff)
  with r show "\<exists>r \<in> set (image_order_table w). id' r = i \<and> get_image_order w i = Inr r"
    by (auto simp: get_image_order_def first_filter_by)
next
  fix r
  assume r: "r \<in> set (image_order_table w)"
    and "distinct (map id' (image_order_table w)) \<and> id' r = i"
  then have d: "distinct (map id' (image_order_table w))" and i: "id' r = i"
    by simp_all
  from r i obtain r' where r': "List.find (\<lambda>r. id' r = i) (image_order_table w) = Some r'"
    by (cases "List.find (\<lambda>r. id' r = i) (image_order_table w)") (auto simp: find_None_iff)
  then have "r' \<in> set (image_order_table w)" "id' r' = i"
    by (auto simp: find_Some_iff)
  with d r i have "r' = r"
    by (metis distinct_map inj_onD)
  with r' show "get_image_order w i = Inr r"
    by (simp add: get_image_order_def first_filter_by)
qed

theorem get_image_order_example:
  "7 \<notin> id' ` set (image_order_table example_store)
   \<and> get_image_order example_store 7 =
       Inl (HTTPException 404 ''Image order with id={id} does not exist.'')
   \<and> example_order 2 \<in> set (image_order_table example_store)
   \<and> distinct (map id' (image_order_table example_store))
   \<and> get_image_order example_store 2 = Inr (example_order 2)"
  using get_image_order_found_or_404 [of 7 example_store]
    get_image_order_found_or_404 [of 2 example_store]
  by (auto simp add: example_store_def example_order_def)

section \<open>Creating an order\<close>

text \<open>
  C1. An order that \<open>create_order\<close> persists has
  \<open>number_of_visits = NumberOfRevisits + 1\<close>, whether it repeats or not, and its
  window is the submitted one: \<open>start_time\<close> and \<open>end_time\<close> are the parsed
  \<open>ImageStartTime\<close> and \<open>ImageEndTime\<close>. So an order with \<open>n\<close> revisits stores
  \<open>n + 1\<close> visits, and an order that does not repeat stores one visit exactly when it
  was submitted with no revisits.
\<close>

theorem create_order_number_of_visits:
  "create_order env w req = (Inr oid, w') \<Longrightarrow>
     \<exists>row. image_order_table w' = image_order_table w @ [row] \<and> id' row = oid
       \<and> number_of_visits row = NumberOfRevisits (Recurrence req) + 1
       \<and> fromisoformat env (ImageStartTime req) = Some (start_time row)
       \<and> fromisoformat env (ImageEndTime req) = Some (end_time row)"
proof -
  assume "create_order env w req = (Inr oid, w')"
  from create_order_Inr [OF this] obtain row where
    "w' = w\<lparr>image_order_table := image_order_table w @ [row],
             image_order_id_seq := image_order_id_seq w + 1,
             effects := effects w @
               [Commit oid, Publish (''order.'' @ order_type row @ ''.created'') oid]\<rparr>"
    "id' row = oid" "number_of_visits row = NumberOfRevisits (Recurrence req) + 1"
    "fromisoformat env (ImageStartTime req) = Some (start_time row)"
    "fromisoformat env (ImageEndTime req) = Some (end_time row)"
    by blast
  then show ?thesis
    by (intro exI [of _ row]) simp
qed

theorem create_order_number_of_visits_example:
  "create_order example_env example_world example_request =
     (Inr 1, snd (create_order example_env example_world example_request))
   \<and> map number_of_visits
        (image_order_table (snd (create_order example_env example_world example_request))) = [2 + 1]
   \<and> map start_time
        (image_order_table (snd (create_order example_env example_world example_request))) = [0]
   \<and> map end_time
        (image_order_table (snd (create_order example_env example_world example_request))) = [3600]"
proof -
  have run: "create_order example_env example_world example_request =
     (Inr 1, snd (create_order example_env example_world example_request))"
    by (simp add: create_order_example)
  from create_order_number_of_visits [OF run] show ?thesis
    by (simp add: create_order_example)
qed

text \<open>
  An order that does not repeat, submitted with two revisits, is stored with three
  visits, not one.
\<close>

theorem create_order_single_visit_counterexample:
  "str_lower example_env (Revisit (Recurrence (example_request\<lparr>Recurrence :=
        \<lparr>Revisit = ''false'', NumberOfRevisits = 2, RevisitFrequency = None,
         RevisitFrequencyUnits = None\<rparr>\<rparr>))) \<noteq> ''true''
   \<and> fst (create_order example_env example_world
        (example_request\<lparr>Recurrence :=
          \<lparr>Revisit = ''false'', NumberOfRevisits = 2, RevisitFrequency = None,
           RevisitFrequencyUnits = None\<rparr>\<rparr>)) = Inr 1
   \<and> map number_of_visits (image_order_table (snd (create_order example_env example_world
        (example_request\<lparr>Recurrence :=
          \<lparr>Revisit = ''false'', NumberOfRevisits = 2, RevisitFrequency = None,
           RevisitFrequencyUnits = None\<rparr>\<rparr>)))) = [3]
   \<and> map number_of_visits (image_order_table (snd (create_order example_env example_world
        (example_request\<lparr>Recurrence :=
          \<lparr>Revisit = ''false'', NumberOfRevisits = 2, RevisitFrequency = None,
           RevisitFrequencyUnits = None\<rparr>\<rparr>)))) \<noteq> [1]"
  by (simp add: create_order_single_example) (simp add: example_env_def ascii_lower_defs)

text \<open>
  C2. A repeating order whose unit, lower-cased by \<open>str.lower()\<close>, is not a keyword
  of \<open>timedelta\<close>, or whose frequency is absent, makes \<open>create_order\<close> raise
  \<open>TypeError\<close> (\<open>AttributeError\<close> when the unit itself is absent), and nothing is
  persisted or published.
\<close>

theorem create_order_malformed_recurrence:
  assumes "str_lower env (Revisit (Recurrence req)) = ''true''"
  shows "(RevisitFrequencyUnits (Recurrence req) = None \<longrightarrow>
            create_order env w req = (Inl AttributeError, w))
       \<and> (\<forall>u. RevisitFrequencyUnits (Recurrence req) = Some u
               \<and> (str_lower env u \<notin> fst ` set timedelta_keywords
                    \<or> RevisitFrequency (Recurrence req) = None) \<longrightarrow>
            create_order env w req = (Inl TypeError, w))"
proof (intro conjI impI allI)
  assume "RevisitFrequencyUnits (Recurrence req) = None"
  with assms show "create_order env w req = (Inl AttributeError, w)"
    by (simp add: create_order_def)
next
  fix u
  assume u: "RevisitFrequencyUnits (Recurrence req) = Some u
      \<and> (str_lower env u \<notin> fst ` set timedelta_keywords \<or> RevisitFrequency (Recurrence req) = None)"
  have "timedelta (str_lower env u) (RevisitFrequency (Recurrence req)) = Inl TypeError"
  proof (cases "str_lower env u \<in> fst ` set timedelta_keywords")
    case False
    then have "map_of timedelta_keywords (str_lower env u) = None"
      by (simp add: map_of_eq_None_iff)
    then show ?thesis
      by (simp add: timedelta_def)
  next
    case True
    with u have "RevisitFrequency (Recurrence req) = None"
      by simp
    then show ?thesis
      by (simp add: timedelta_def split: option.splits)
  qed
  with assms u show "create_order env w req = (Inl TypeError, w)"
    by (simp add: create_order_def)
qed

theorem create_order_malformed_recurrence_example:
  "str_lower example_env ''True'' = ''true''
   \<and> create_order example_env example_world
        (example_request\<lparr>Recurrence :=
          \<lparr>Revisit = ''True'', NumberOfRevisits = 2, RevisitFrequency = Some 1,
           RevisitFrequencyUnits = None\<rparr>\<rparr>) = (Inl AttributeError, example_world)
   \<and> str_lower example_env ''Fortnights'' \<notin> fst ` set timedelta_keywords
   \<and> create_order example_env example_world
        (example_request\<lparr>Recurrence :=
          \<lparr>Revisit = ''True'', NumberOfRevisits = 2, RevisitFrequency = Some 1,
           RevisitFrequencyUnits = Some ''Fortnights''\<rparr>\<rparr>) = (Inl TypeError, example_world)
   \<and> create_order example_env example_world
        (example_request\<lparr>Recurrence :=
          \<lparr>Revisit = ''True'', NumberOfRevisits = 2, RevisitFrequency = None,
           RevisitFrequencyUnits = Some ''days''\<rparr>\<rparr>) = (Inl TypeError, example_world)"
proof -
  have t: "str_lower example_env ''True'' = ''true''"
    by (simp add: example_env_def ascii_lower_defs)
  have f: "str_lower example_env ''Fortnights'' \<notin> fst ` set timedelta_keywords"
    by (simp add: example_env_def ascii_lower_defs timedelta_keywords_def)
  show ?thesis
    using t f
      create_order_malformed_recurrence [of example_env "example_request\<lparr>Recurrence :=
          \<lparr>Revisit = ''True'', NumberOfRevisits = 2, RevisitFrequency = Some 1,
           RevisitFrequencyUnits = None\<rparr>\<rparr>" example_world]
      create_order_malformed_recurrence [of example_env "example_request\<lparr>Recurrence :=
          \<lparr>Revisit = ''True'', NumberOfRevisits = 2, RevisitFrequency = Some 1,
           RevisitFrequencyUnits = Some ''Fortnights''\<rparr>\<rparr>" example_world]
      create_order_malformed_recurrence [of example_env "example_request\<lparr>Recurrence :=
          \<lparr>Revisit = ''True'', NumberOfRevisits = 2, RevisitFrequency = None,
           RevisitFrequencyUnits = Some ''days''\<rparr>\<rparr>" example_world]
    by simp
qed

text \<open>
  The unit \<open>seconds\<close> is none of minutes, hours, days and weeks, and the order is
  persisted; the unit \<open>fortnights\<close> raises \<open>TypeError\<close>, not \<open>InvalidRecurrence\<close>.
\<close>

theorem create_order_seconds_counterexample:
  "str_lower example_env (Revisit (Recurrence (example_request\<lparr>Recurrence :=
        \<lparr>Revisit = ''true'', NumberOfRevisits = 2, RevisitFrequency = Some 30,
         RevisitFrequencyUnits = Some ''seconds''\<rparr>\<rparr>))) = ''true''
   \<and> ''seconds'' \<notin> {''minutes'', ''hours'', ''days'', ''weeks''}
   \<and> fst (create_order example_env example_world
        (example_request\<lparr>Recurrence :=
          \<lparr>Revisit = ''true'', NumberOfRevisits = 2, RevisitFrequency = Some 30,
           RevisitFrequencyUnits = Some ''seconds''\<rparr>\<rparr>)) = Inr 1
   \<and> map id' (image_order_table (snd (create_order example_env example_world
        (example_request\<lparr>Recurrence :=
          \<lparr>Revisit = ''true'', NumberOfRevisits = 2, RevisitFrequency = Some 30,
           RevisitFrequencyUnits = Some ''seconds''\<rparr>\<rparr>)))) = [1]
   \<and> fst (create_order example_env example_world
        (example_request\<lparr>Recurrence :=
          \<lparr>Revisit = ''true'', NumberOfRevisits = 2, RevisitFrequency = Some 30,
           RevisitFrequencyUnits = Some ''fortnights''\<rparr>\<rparr>)) = Inl TypeError
   \<and> fst (create_order example_env example_world
        (example_request\<lparr>Recurrence :=
          \<lparr>Revisit = ''true'', NumberOfRevisits = 2, RevisitFrequency = Some 30,
           RevisitFrequencyUnits = Some ''fortnights''\<rparr>\<rparr>)) \<noteq> Inl InvalidRecurrence"
  by (simp add: create_order_seconds_example)
     (simp add: create_order_defs example_defs ascii_lower_defs)



text \<open>
  C7. The order that \<open>create_order\<close> persists has a \<open>revisit_frequency\<close> if and
  only if the submission repeats (\<open>Revisit.lower() == "true"\<close>); when it does not
  repeat, the \<open>revisit_frequency\<close> is \<open>None\<close>.
\<close>

theorem create_order_revisit_frequency_iff_repeat:
  "create_order env w req = (Inr oid, w') \<Longrightarrow>
     \<exists>row. image_order_table w' = image_order_table w @ [row] \<and> id' row = oid
       \<and> (revisit_frequency row \<noteq> None) = (str_lower env (Revisit (Recurrence req)) = ''true'')
       \<and> (str_lower env (Revisit (Recurrence req)) \<noteq> ''true'' \<longrightarrow> revisit_frequency row = None)"
proof -
  assume "create_order env w req = (Inr oid, w')"
  from create_order_Inr [OF this] obtain row where
    "w' = w\<lparr>image_order_table := image_order_table w @ [row],
             image_order_id_seq := image_order_id_seq w + 1,
             effects := effects w @
               [Commit oid, Publish (''order.'' @ order_type row @ ''.created'') oid]\<rparr>"
    "id' row = oid"
    "if str_lower env (Revisit (Recurrence req)) = ''true''
        then \<exists>u d. RevisitFrequencyUnits (Recurrence req) = Some u
               \<and> timedelta (str_lower env u) (RevisitFrequency (Recurrence req)) = Inr d
               \<and> revisit_frequency row = Some d
        else revisit_frequency row = None"
    by blast
  then show ?thesis
    by (intro exI [of _ row]) (auto split: if_splits)
qed

theorem create_order_revisit_frequency_example:
  "create_order example_env example_world example_request =
     (Inr 1, snd (create_order example_env example_world example_request))
   \<and> str_lower example_env (Revisit (Recurrence example_request)) = ''true''
   \<and> map revisit_frequency
        (image_order_table (snd (create_order example_env example_world example_request))) =
       [Some 86400000000]
   \<and> str_lower example_env ''false'' \<noteq> ''true''
   \<and> map revisit_frequency
        (image_order_table (snd (create_order example_env example_world
          (example_request\<lparr>Recurrence :=
            \<lparr>Revisit = ''false'', NumberOfRevisits = 2, RevisitFrequency = None,
             RevisitFrequencyUnits = None\<rparr>\<rparr>)))) = [None]"
proof -
  have run: "create_order example_env example_world example_request =
     (Inr 1, snd (create_order example_env example_world example_request))"
    by (simp add: create_order_example)
  have run': "create_order example_env example_world
     (example_request\<lparr>Recurrence :=
        \<lparr>Revisit = ''false'', NumberOfRevisits = 2, RevisitFrequency = None,
         RevisitFrequencyUnits = None\<rparr>\<rparr>) =
     (Inr 1, snd (create_order example_env example_world
     (example_request\<lparr>Recurrence :=
        \<lparr>Revisit = ''false'', NumberOfRevisits = 2, RevisitFrequency = None,
         RevisitFrequencyUnits = None\<rparr>\<rparr>)))"
    by (simp add: create_order_single_example)
  have t: "str_lower example_env (Revisit (Recurrence example_request)) = ''true''"
    by (simp add: example_request_def example_env_def ascii_lower_defs)
  have f: "str_lower example_env ''false'' \<noteq> ''true''"
    by (simp add: example_env_def ascii_lower_defs)
  from create_order_revisit_frequency_iff_repeat [OF run]
    create_order_revisit_frequency_iff_repeat [OF run']
  show ?thesis
    using t f by (simp add: create_order_example create_order_single_example)
qed

text \<open>
  C8. \<open>parse_image_type\<close> looks the lower-cased image type up in the closed mapping
  low to low, medium to medium, high to spotlight, and raises \<open>KeyError\<close> for every
  other key. A persisted order has the mapped type; a call whose image type is in the
  mapping never raises \<open>KeyError\<close>, and it persists an order of the mapped type
  whenever the recurrence is accepted and the three timestamps parse. For an image type
  outside the mapping \<open>create_order\<close> raises and leaves the world as it found it:
  the exception is the \<open>KeyError\<close> of \<open>parse_image_type\<close> when the recurrence of lines
  55 to 60 has not raised (the order does not repeat, or \<open>timedelta\<close> returned a
  duration), and otherwise the exception raised there, which is \<open>AttributeError\<close>
  for an absent unit and the \<open>TypeError\<close> or \<open>OverflowError\<close> of \<open>timedelta\<close>.
\<close>

theorem create_order_image_type:
  "parse_image_type lower t =
     (if lower t = ''low'' then Inr ''low''
      else if lower t = ''medium'' then Inr ''medium''
      else if lower t = ''high'' then Inr ''spotlight''
      else Inl (KeyError (lower t)))
   \<and> (create_order env w req = (Inr oid, w') \<longrightarrow>
        (\<exists>row. image_order_table w' = image_order_table w @ [row] \<and> id' row = oid
           \<and> parse_image_type (str_lower env) (ImageType req) = Inr (image_type row)))
   \<and> (str_lower env (ImageType req) \<in> {''low'', ''medium'', ''high''} \<longrightarrow>
        (\<forall>k. fst (create_order env w req) \<noteq> Inl (KeyError k))
        \<and> ((str_lower env (Revisit (Recurrence req)) \<noteq> ''true''
              \<or> (\<exists>u d. RevisitFrequencyUnits (Recurrence req) = Some u
                    \<and> timedelta (str_lower env u) (RevisitFrequency (Recurrence req)) = Inr d))
            \<and> fromisoformat env (ImageStartTime req) \<noteq> None
            \<and> fromisoformat env (ImageEndTime req) \<noteq> None
            \<and> fromisoformat env (DeliveryTime req) \<noteq> None \<longrightarrow>
            fst (create_order env w req) = Inr (image_order_id_seq w)
            \<and> (\<exists>v. map_of type_mappings (str_lower env (ImageType req)) = Some v
                 \<and> map image_type (image_order_table (snd (create_order env w req))) =
                     map image_type (image_order_table w) @ [v])))
   \<and> (str_lower env (ImageType req) \<notin> {''low'', ''medium'', ''high''} \<longrightarrow>
        (if str_lower env (Revisit (Recurrence req)) \<noteq> ''true''
         then create_order env w req = (Inl (KeyError (str_lower env (ImageType req))), w)
         else case RevisitFrequencyUnits (Recurrence req) of
                None \<Rightarrow> create_order env w req = (Inl AttributeError, w)
              | Some u \<Rightarrow>
                 (case timedelta (str_lower env u) (RevisitFrequency (Recurrence req)) of
                    Inr d \<Rightarrow>
                      create_order env w req = (Inl (KeyError (str_lower env (ImageType req))), w)
                  | Inl e \<Rightarrow>
                      create_order env w req = (Inl e, w) \<and> e \<in> {TypeError, OverflowError})))"
proof (intro conjI impI allI)
  show "parse_image_type lower t =
     (if lower t = ''low'' then Inr ''low''
      else if lower t = ''medium'' then Inr ''medium''
      else if lower t = ''high'' then Inr ''spotlight''
      else Inl (KeyError (lower t)))"
    by (rule parse_image_type_cases)
next
  assume "create_order env w req = (Inr oid, w')"
  from create_order_Inr [OF this] obtain row where
    "w' = w\<lparr>image_order_table := image_order_table w @ [row],
             image_order_id_seq := image_order_id_seq w + 1,
             effects := effects w @
               [Commit oid, Publish (''order.'' @ order_type row @ ''.created'') oid]\<rparr>"
    "id' row = oid" "parse_image_type (str_lower env) (ImageType req) = Inr (image_type row)"
    by blast
  then show "\<exists>row. image_order_table w' = image_order_table w @ [row] \<and> id' row = oid
           \<and> parse_image_type (str_lower env) (ImageType req) = Inr (image_type row)"
    by (intro exI [of _ row]) simp
next
  fix k
  assume "str_lower env (ImageType req) \<in> {''low'', ''medium'', ''high''}"
  then obtain v where "parse_image_type (str_lower env) (ImageType req) = Inr v"
    by (auto simp: parse_image_type_cases)
  then show "fst (create_order env w req) \<noteq> Inl (KeyError k)"
    by (auto simp: create_order_def add_commit_def publish_message_def Let_def
        split: sum.splits option.splits dest: timedelta_errors)
next
  assume "str_lower env (ImageType req) \<in> {''low'', ''medium'', ''high''}"
  then obtain v where v: "parse_image_type (str_lower env) (ImageType req) = Inr v"
    by (auto simp: parse_image_type_cases)
  assume ok: "(str_lower env (Revisit (Recurrence req)) \<noteq> ''true''
              \<or> (\<exists>u d. RevisitFrequencyUnits (Recurrence req) = Some u
                    \<and> timedelta (str_lower env u) (RevisitFrequency (Recurrence req)) = Inr d))
            \<and> fromisoformat env (ImageStartTime req) \<noteq> None
            \<and> fromisoformat env (ImageEndTime req) \<noteq> None
            \<and> fromisoformat env (DeliveryTime req) \<noteq> None"
  from v ok show "fst (create_order env w req) = Inr (image_order_id_seq w)"
    by (auto simp: create_order_def add_commit_def publish_message_def Let_def)
  from v ok show "\<exists>v. map_of type_mappings (str_lower env (ImageType req)) = Some v
                 \<and> map image_type (image_order_table (snd (create_order env w req))) =
                     map image_type (image_order_table w) @ [v]"
    by (intro exI [of _ v])
      (auto simp: create_order_def add_commit_def publish_message_def Let_def
        parse_image_type_def split: option.splits)
next
  assume "str_lower env (ImageType req) \<notin> {''low'', ''medium'', ''high''}"
  then have k: "parse_image_type (str_lower env) (ImageType req) =
      Inl (KeyError (str_lower env (ImageType req)))"
    by (simp add: parse_image_type_cases)
  show "if str_lower env (Revisit (Recurrence req)) \<noteq> ''true''
         then create_order env w req = (Inl (KeyError (str_lower env (ImageType req))), w)
         else case RevisitFrequencyUnits (Recurrence req) of
                None \<Rightarrow> create_order env w req = (Inl AttributeError, w)
              | Some u \<Rightarrow>
                 (case timedelta (str_lower env u) (RevisitFrequency (Recurrence req)) of
                    Inr d \<Rightarrow>
                      create_order env w req = (Inl (KeyError (str_lower env (ImageType req))), w)
                  | Inl e \<Rightarrow>
                      create_order env w req = (Inl e, w) \<and> e \<in> {TypeError, OverflowError})"
    using k
    by (auto simp: create_order_def split: option.splits sum.splits dest: timedelta_errors)
qed

theorem create_order_image_type_example:
  "parse_image_type (str_lower example_env) ''HIGH'' = Inr ''spotlight''
   \<and> str_lower example_env ''HIGH'' \<in> {''low'', ''medium'', ''high''}
   \<and> create_order example_env example_world (example_request\<lparr>ImageType := ''HIGH''\<rparr>) =
       (Inr 1, snd (create_order example_env example_world (example_request\<lparr>ImageType := ''HIGH''\<rparr>)))
   \<and> map image_type (image_order_table (snd (create_order example_env example_world
        (example_request\<lparr>ImageType := ''HIGH''\<rparr>)))) = [''spotlight'']
   \<and> str_lower example_env ''Ultra'' \<notin> {''low'', ''medium'', ''high''}
   \<and> create_order example_env example_world (example_request\<lparr>ImageType := ''Ultra''\<rparr>) =
       (Inl (KeyError ''ultra''), example_world)
   \<and> create_order example_env example_world
        (example_request\<lparr>ImageType := ''Ultra'', Recurrence :=
          \<lparr>Revisit = ''true'', NumberOfRevisits = 2, RevisitFrequency = Some 1,
           RevisitFrequencyUnits = Some ''fortnights''\<rparr>\<rparr>) = (Inl TypeError, example_world)
   \<and> create_order example_env example_world
        (example_request\<lparr>ImageType := ''Ultra'', Recurrence :=
          \<lparr>Revisit = ''true'', NumberOfRevisits = 2, RevisitFrequency = Some 1000000000,
           RevisitFrequencyUnits = Some ''days''\<rparr>\<rparr>) = (Inl OverflowError, example_world)"
proof -
  have l: "str_lower example_env ''HIGH'' = ''high''" "str_lower example_env ''Ultra'' = ''ultra''"
    "str_lower example_env ''true'' = ''true''" "str_lower example_env ''days'' = ''days''"
    "str_lower example_env ''fortnights'' = ''fortnights''"
    by (simp_all add: example_env_def ascii_lower_defs)
  have t: "timedelta ''days'' (Some 1) = Inr 86400000000"
    "timedelta ''fortnights'' (Some 1) = Inl TypeError"
    "timedelta ''days'' (Some 1000000000) = Inl OverflowError"
    by (simp_all add: timedelta_def timedelta_keywords_def)
  have d: "fromisoformat example_env ''2025-01-01T00:00:00'' = Some 0"
    "fromisoformat example_env ''2025-01-01T01:00:00'' = Some 3600"
    "fromisoformat example_env ''2025-01-01T02:00:00'' = Some 7200"
    by (simp_all add: example_env_def example_fromisoformat_def)
  show ?thesis
    using l t d
      create_order_image_type [of "str_lower example_env" "''HIGH''" example_env example_world
        "example_request\<lparr>ImageType := ''HIGH''\<rparr>" 1
        "snd (create_order example_env example_world (example_request\<lparr>ImageType := ''HIGH''\<rparr>))"]
      create_order_image_type [of "str_lower example_env" "''HIGH''" example_env example_world
        "example_request\<lparr>ImageType := ''Ultra''\<rparr>" 1 example_world]
      create_order_image_type [of "str_lower example_env" "''HIGH''" example_env example_world
        "example_request\<lparr>ImageType := ''Ultra'', Recurrence :=
          \<lparr>Revisit = ''true'', NumberOfRevisits = 2, RevisitFrequency = Some 1,
           RevisitFrequencyUnits = Some ''fortnights''\<rparr>\<rparr>" 1 example_world]
      create_order_image_type [of "str_lower example_env" "''HIGH''" example_env example_world
        "example_request\<lparr>ImageType := ''Ultra'', Recurrence :=
          \<lparr>Revisit = ''true'', NumberOfRevisits = 2, RevisitFrequency = Some 1000000000,
           RevisitFrequencyUnits = Some ''days''\<rparr>\<rparr>" 1 example_world]
    by (simp add: example_request_def create_order_HIGH_example [unfolded example_request_def, simplified])
qed

text \<open>
  An order of image type \<open>ultra\<close> that repeats every fortnight raises the
  \<open>TypeError\<close> of line 58, not a \<open>KeyError\<close>: line 66 is never reached.
\<close>

theorem create_order_image_type_counterexample:
  "str_lower example_env (ImageType (example_request\<lparr>ImageType := ''ultra'', Recurrence :=
        \<lparr>Revisit = ''true'', NumberOfRevisits = 2, RevisitFrequency = Some 1,
         RevisitFrequencyUnits = Some ''fortnights''\<rparr>\<rparr>)) \<notin> {''low'', ''medium'', ''high''}
   \<and> fst (create_order example_env example_world
        (example_request\<lparr>ImageType := ''ultra'', Recurrence :=
          \<lparr>Revisit = ''true'', NumberOfRevisits = 2, RevisitFrequency = Some 1,
           RevisitFrequencyUnits = Some ''fortnights''\<rparr>\<rparr>)) = Inl TypeError
   \<and> fst (create_order example_env example_world
        (example_request\<lparr>ImageType := ''ultra'', Recurrence :=
          \<lparr>Revisit = ''true'', NumberOfRevisits = 2, RevisitFrequency = Some 1,
           RevisitFrequencyUnits = Some ''fortnights''\<rparr>\<rparr>)) \<noteq> Inl (KeyError ''ultra'')"
  by (simp add: create_order_defs example_defs ascii_lower_defs)

section \<open>The report\<close>

text \<open>
  C6. Whatever the order of the groups, the breakdown prints a status line for exactly
  the statuses that occur among the requests it is given, each with the number of
  requests in that status; in the report, the overall breakdown does so for the whole
  table of schedule requests.
\<close>

theorem print_request_breakdown_status_counts:
  "(StatusCount i s n \<in> set (print_request_breakdown groups rows indent) \<longleftrightarrow>
      i = indent \<and> s \<in> ScheduleRequest_status ` set rows
      \<and> n = count_list (map ScheduleRequest_status rows) s)
   \<and> (\<forall>s \<in> ScheduleRequest_status ` set (ScheduleRequest_table db).
        StatusCount ''   '' s
          (count_list (map ScheduleRequest_status (ScheduleRequest_table db)) s)
        \<in> set (create_report db))"
proof (intro conjI ballI)
  show "StatusCount i s n \<in> set (print_request_breakdown groups rows indent) \<longleftrightarrow>
      i = indent \<and> s \<in> ScheduleRequest_status ` set rows
      \<and> n = count_list (map ScheduleRequest_status rows) s"
    by (simp only: StatusCount_in_print_request_breakdown length_filter_count_list)
next
  fix s
  assume "s \<in> ScheduleRequest_status ` set (ScheduleRequest_table db)"
  then have "StatusCount ''   '' s
      (count_list (map ScheduleRequest_status (ScheduleRequest_table db)) s)
      \<in> set (print_request_breakdown (group_order db) (ScheduleRequest_table db) ''   '')"
    by (simp only: StatusCount_in_print_request_breakdown length_filter_count_list)
  with print_request_breakdown_in_create_report [of db]
  show "StatusCount ''   '' s
      (count_list (map ScheduleRequest_status (ScheduleRequest_table db)) s)
      \<in> set (create_report db)"
    by blast
qed

theorem print_request_breakdown_status_counts_example:
  "StatusCount ''   '' ''pending'' 2
     \<in> set (print_request_breakdown example_group_order example_requests ''   '')
   \<and> StatusCount ''   '' ''scheduled'' 3
     \<in> set (print_request_breakdown example_group_order example_requests ''   '')
   \<and> StatusCount ''   '' ''rejected'' 1
     \<in> set (print_request_breakdown example_group_order example_requests ''   '')
   \<and> count_list (map ScheduleRequest_status example_requests) ''pending'' = 2
   \<and> StatusCount ''   '' ''pending'' 3
     \<notin> set (print_request_breakdown example_group_order example_requests ''   '')
   \<and> ''scheduled'' \<in> ScheduleRequest_status ` set (ScheduleRequest_table example_database)
   \<and> StatusCount ''   '' ''scheduled'' 3 \<in> set (create_report example_database)"
proof -
  have n: "count_list (map ScheduleRequest_status example_requests) ''pending'' = 2"
    "count_list (map ScheduleRequest_status example_requests) ''scheduled'' = 3"
    "count_list (map ScheduleRequest_status example_requests) ''rejected'' = 1"
    by (simp_all add: example_requests_def example_schedule_request_def)
  have s: "ScheduleRequest_status ` set example_requests = {''pending'', ''scheduled'', ''rejected''}"
    by (auto simp add: example_requests_def example_schedule_request_def)
  have t: "ScheduleRequest_table example_database = example_requests"
    by (simp add: example_database_def)
  show ?thesis
    using n s t
      print_request_breakdown_status_counts [of "''   ''" "''pending''" 2 example_group_order
        example_requests "''   ''" example_database]
      print_request_breakdown_status_counts [of "''   ''" "''scheduled''" 3 example_group_order
        example_requests "''   ''" example_database]
      print_request_breakdown_status_counts [of "''   ''" "''rejected''" 1 example_group_order
        example_requests "''   ''" example_database]
      print_request_breakdown_status_counts [of "''   ''" "''pending''" 3 example_group_order
        example_requests "''   ''" example_database]
    by simp
qed

text \<open>
  C9. Whatever the order of the groups, a reason line is printed exactly for a status
  in which two requests differ in their status message, an absent message counting as
  a value of its own: the line of a message \<open>m\<close> carries the number of requests of
  that status with message \<open>m\<close>. So where the requests of every status agree on the
  message (or all have none), no reason line is printed at all.
\<close>

theorem print_request_breakdown_reason_lines:
  "(ReasonCount i n m \<in> set (print_request_breakdown groups rows indent) \<longleftrightarrow>
      i = indent \<and>
      (\<exists>r1 \<in> set rows. \<exists>r2 \<in> set rows.
         ScheduleRequest_status r1 = ScheduleRequest_status r2
         \<and> ScheduleRequest_status_message r1 \<noteq> ScheduleRequest_status_message r2
         \<and> ScheduleRequest_status_message r1 = m
         \<and> n = length (filter (\<lambda>r. ScheduleRequest_status r = ScheduleRequest_status r1
                                   \<and> ScheduleRequest_status_message r = m) rows)))
   \<and> ((\<forall>r1 \<in> set rows. \<forall>r2 \<in> set rows.
          ScheduleRequest_status r1 = ScheduleRequest_status r2 \<longrightarrow>
          ScheduleRequest_status_message r1 = ScheduleRequest_status_message r2) \<longrightarrow>
       (\<forall>i n m. ReasonCount i n m \<notin> set (print_request_breakdown groups rows indent)))"
proof (intro conjI impI allI)
  show "ReasonCount i n m \<in> set (print_request_breakdown groups rows indent) \<longleftrightarrow>
      i = indent \<and>
      (\<exists>r1 \<in> set rows. \<exists>r2 \<in> set rows.
         ScheduleRequest_status r1 = ScheduleRequest_status r2
         \<and> ScheduleRequest_status_message r1 \<noteq> ScheduleRequest_status_message r2
         \<and> ScheduleRequest_status_message r1 = m
         \<and> n = length (filter (\<lambda>r. ScheduleRequest_status r = ScheduleRequest_status r1
                                   \<and> ScheduleRequest_status_message r = m) rows))"
    by (rule ReasonCount_in_print_request_breakdown)
next
  fix i n m
  assume same: "\<forall>r1 \<in> set rows. \<forall>r2 \<in> set rows.
          ScheduleRequest_status r1 = ScheduleRequest_status r2 \<longrightarrow>
          ScheduleRequest_status_message r1 = ScheduleRequest_status_message r2"
  show "ReasonCount i n m \<notin> set (print_request_breakdown groups rows indent)"
  proof
    assume "ReasonCount i n m \<in> set (print_request_breakdown groups rows indent)"
    then obtain r1 r2 where "r1 \<in> set rows" "r2 \<in> set rows"
      "ScheduleRequest_status r1 = ScheduleRequest_status r2"
      "ScheduleRequest_status_message r1 \<noteq> ScheduleRequest_status_message r2"
      unfolding ReasonCount_in_print_request_breakdown by blast
    with same show False
      by blast
  qed
qed

theorem print_request_breakdown_reason_lines_example:
  "example_schedule_request 4 ''scheduled'' (Some ''GS-3'') \<in> set example_requests
   \<and> example_schedule_request 2 ''scheduled'' None \<in> set example_requests
   \<and> ReasonCount ''   '' 2 (Some ''GS-3'')
       \<in> set (print_request_breakdown example_group_order example_requests ''   '')
   \<and> ReasonCount ''   '' 2 (Some ''queued'') \<notin> set (print_request_breakdown example_group_order
        [example_schedule_request 1 ''pending'' (Some ''queued''),
         example_schedule_request 2 ''pending'' (Some ''queued''),
         example_schedule_request 3 ''rejected'' None] ''   '')"
proof -
  let ?r4 = "example_schedule_request 4 ''scheduled'' (Some ''GS-3'')"
  let ?r2 = "example_schedule_request 2 ''scheduled'' None"
  let ?uniform = "[example_schedule_request 1 ''pending'' (Some ''queued''),
         example_schedule_request 2 ''pending'' (Some ''queued''),
         example_schedule_request 3 ''rejected'' None]"
  have r4: "?r4 \<in> set example_requests" and r2: "?r2 \<in> set example_requests"
    by (simp_all add: example_requests_def)
  have "ScheduleRequest_status ?r4 = ScheduleRequest_status ?r2
      \<and> ScheduleRequest_status_message ?r4 \<noteq> ScheduleRequest_status_message ?r2
      \<and> ScheduleRequest_status_message ?r4 = Some ''GS-3''
      \<and> 2 = length (filter (\<lambda>r. ScheduleRequest_status r = ScheduleRequest_status ?r4
               \<and> ScheduleRequest_status_message r = Some ''GS-3'') example_requests)"
    by (simp add: example_requests_def example_schedule_request_def)
  then have "\<exists>r2 \<in> set example_requests.
      ScheduleRequest_status ?r4 = ScheduleRequest_status r2
      \<and> ScheduleRequest_status_message ?r4 \<noteq> ScheduleRequest_status_message r2
      \<and> ScheduleRequest_status_message ?r4 = Some ''GS-3''
      \<and> 2 = length (filter (\<lambda>r. ScheduleRequest_status r = ScheduleRequest_status ?r4
               \<and> ScheduleRequest_status_message r = Some ''GS-3'') example_requests)"
    using r2 by (rule bexI)
  then have "\<exists>r1 \<in> set example_requests. \<exists>r2 \<in> set example_requests.
      ScheduleRequest_status r1 = ScheduleRequest_status r2
      \<and> ScheduleRequest_status_message r1 \<noteq> ScheduleRequest_status_message r2
      \<and> ScheduleRequest_status_message r1 = Some ''GS-3''
      \<and> 2 = length (filter (\<lambda>r. ScheduleRequest_status r = ScheduleRequest_status r1
               \<and> ScheduleRequest_status_message r = Some ''GS-3'') example_requests)"
    using r4 by (rule bexI)
  with print_request_breakdown_reason_lines
    [of "''   ''" 2 "Some ''GS-3''" example_group_order example_requests "''   ''"]
  have printed: "ReasonCount ''   '' 2 (Some ''GS-3'')
       \<in> set (print_request_breakdown example_group_order example_requests ''   '')"
    by blast
  have "\<forall>r1 \<in> set ?uniform. \<forall>r2 \<in> set ?uniform.
          ScheduleRequest_status r1 = ScheduleRequest_status r2 \<longrightarrow>
          ScheduleRequest_status_message r1 = ScheduleRequest_status_message r2"
    by (simp add: example_schedule_request_def)
  with print_request_breakdown_reason_lines
    [of "''   ''" 2 "Some ''queued''" example_group_order ?uniform "''   ''"]
  have silent: "ReasonCount ''   '' 2 (Some ''queued'')
      \<notin> set (print_request_breakdown example_group_order ?uniform ''   '')"
    by blast
  from r4 r2 printed silent show ?thesis
    by (simp only: simp_thms)
qed

text \<open>
  Two requests in one status, one without a message and one with the reason \<open>GS-3\<close>:
  the status has a single reason, and yet both reason lines are printed, one of them
  for the absent message.
\<close>

theorem print_request_breakdown_absent_reason_counterexample:
  "map ScheduleRequest_status_message
     [example_schedule_request 1 ''scheduled'' None,
      example_schedule_request 2 ''scheduled'' (Some ''GS-3'')] = [None, Some ''GS-3'']
   \<and> ReasonCount ''   '' 1 (Some ''GS-3'') \<in> set (print_request_breakdown example_group_order
        [example_schedule_request 1 ''scheduled'' None,
         example_schedule_request 2 ''scheduled'' (Some ''GS-3'')] ''   '')
   \<and> ReasonCount ''   '' 1 None \<in> set (print_request_breakdown example_group_order
        [example_schedule_request 1 ''scheduled'' None,
         example_schedule_request 2 ''scheduled'' (Some ''GS-3'')] ''   '')"
  by (simp add: ReasonCount_in_print_request_breakdown example_schedule_request_def)

text \<open>
  C10. The report prints for every ground station the number of contact events of
  that station whose total transmission time is greater than 0, and no other count;
  a contact event with transmission time 0 changes no count.
\<close>

theorem create_report_scheduled_contacts:
  "(ScheduledContacts name n \<in> set (create_report db) \<longleftrightarrow>
      (\<exists>gs \<in> set (GroundStation_table db). name = GroundStation_name gs
         \<and> n = card {i. i < length (ContactEvent_table db)
                \<and> ContactEvent_groundstation_id (ContactEvent_table db ! i) = GroundStation_id gs
                \<and> 0 < ContactEvent_total_transmission_time (ContactEvent_table db ! i)}))
   \<and> (ContactEvent_total_transmission_time c = 0 \<longrightarrow>
        (ScheduledContacts name n
           \<in> set (create_report (db\<lparr>ContactEvent_table := c # ContactEvent_table db\<rparr>)) \<longleftrightarrow>
         ScheduledContacts name n \<in> set (create_report db)))"
proof (intro conjI impI)
  show "ScheduledContacts name n \<in> set (create_report db) \<longleftrightarrow>
      (\<exists>gs \<in> set (GroundStation_table db). name = GroundStation_name gs
         \<and> n = card {i. i < length (ContactEvent_table db)
                \<and> ContactEvent_groundstation_id (ContactEvent_table db ! i) = GroundStation_id gs
                \<and> 0 < ContactEvent_total_transmission_time (ContactEvent_table db ! i)})"
    by (simp only: ScheduledContacts_in_create_report length_filter_conv_card)
next
  assume "ContactEvent_total_transmission_time c = 0"
  then show "ScheduledContacts name n
           \<in> set (create_report (db\<lparr>ContactEvent_table := c # ContactEvent_table db\<rparr>)) \<longleftrightarrow>
         ScheduledContacts name n \<in> set (create_report db)"
    by (simp add: ScheduledContacts_in_create_report)
qed

theorem create_report_scheduled_contacts_example:
  "ScheduledContacts ''Inuvik'' 2 \<in> set (create_report example_database)
   \<and> ScheduledContacts ''Inuvik'' 3 \<notin> set (create_report example_database)
   \<and> ScheduledContacts ''Prince Albert'' 0 \<in> set (create_report example_database)
   \<and> ContactEvent_total_transmission_time
        \<lparr>ContactEvent_id = 5, ContactEvent_groundstation_id = 2,
         ContactEvent_total_transmission_time = 0\<rparr> = 0
   \<and> ScheduledContacts ''Prince Albert'' 0 \<in> set (create_report
        (example_database\<lparr>ContactEvent_table :=
           \<lparr>ContactEvent_id = 5, ContactEvent_groundstation_id = 2,
            ContactEvent_total_transmission_time = 0\<rparr> # ContactEvent_table example_database\<rparr>))"
proof -
  let ?c = "\<lparr>ContactEvent_id = 5, ContactEvent_groundstation_id = 2,
         ContactEvent_total_transmission_time = 0\<rparr>"
  have zero: "ContactEvent_total_transmission_time ?c = 0"
    by simp
  have here: "ScheduledContacts ''Inuvik'' 2 \<in> set (create_report example_database)"
    "ScheduledContacts ''Inuvik'' 3 \<notin> set (create_report example_database)"
    "ScheduledContacts ''Prince Albert'' 0 \<in> set (create_report example_database)"
    by (simp_all add: ScheduledContacts_in_create_report example_database_def)
  have "ContactEvent_total_transmission_time ?c = 0 \<longrightarrow>
        (ScheduledContacts ''Prince Albert'' 0
           \<in> set (create_report (example_database\<lparr>ContactEvent_table :=
                 ?c # ContactEvent_table example_database\<rparr>)) \<longleftrightarrow>
         ScheduledContacts ''Prince Albert'' 0 \<in> set (create_report example_database))"
    using create_report_scheduled_contacts [of "''Prince Albert''" 0 example_database ?c]
    by (rule conjunct2)
  with zero here show ?thesis
    by blast
qed

end
